theory Spec2Isabelle
  imports Complex_Main
begin

section \<open>Python strings\<close>

text \<open>
  A Python \<^verbatim>\<open>str\<close> is a sequence of Unicode code points, and slicing and \<^verbatim>\<open>len\<close> count
  code points. The cache-hit prefix written in \<^verbatim>\<open>graph_engine.py\<close> holds the code point
  U+0178, which is no 8-bit character, so a string is modelled as the list of its code
  points. \<open>py\<close> embeds an ASCII literal.
\<close>

type_synonym pystr = "nat list"

definition py :: "string \<Rightarrow> pystr" where
  "py s = map of_char s"

text \<open>Python's \<^verbatim>\<open>sub in s\<close> on strings: \<open>sub\<close> occurs in \<open>s\<close> as a contiguous run.\<close>

fun contains :: "pystr \<Rightarrow> pystr \<Rightarrow> bool" where
  "contains sub [] = (sub = [])"
| "contains sub (c # cs) = (take (length sub) (c # cs) = sub \<or> contains sub cs)"

text \<open>The characters \<^verbatim>\<open>str.strip()\<close> removes: those for which \<^verbatim>\<open>str.isspace\<close> holds.\<close>

definition isspace :: "nat \<Rightarrow> bool" where
  "isspace c = ((9 \<le> c \<and> c \<le> 13) \<or> (28 \<le> c \<and> c \<le> 32) \<or> c = 133 \<or> c = 160
     \<or> c = 5760 \<or> (8192 \<le> c \<and> c \<le> 8202) \<or> c = 8232 \<or> c = 8233 \<or> c = 8239
     \<or> c = 8287 \<or> c = 12288)"

definition strip :: "pystr \<Rightarrow> pystr" where
  "strip s = rev (dropWhile isspace (rev (dropWhile isspace s)))"

text \<open>\<^verbatim>\<open>sep.join(parts)\<close>.\<close>

fun join :: "pystr \<Rightarrow> pystr list \<Rightarrow> pystr" where
  "join sep [] = []"
| "join sep [p] = p"
| "join sep (p # q # ps) = p @ sep @ join sep (q # ps)"

section \<open>Messages and the agent state\<close>

text \<open>
  A tool call is the dictionary \<^verbatim>\<open>{'name': .., 'args': .., 'id': ..}\<close> that the model
  attaches to an \<^verbatim>\<open>AIMessage\<close>; its arguments are an association list of keyword and
  value.
\<close>

datatype tool_call = ToolCall (call_name: pystr) (call_args: "(pystr \<times> pystr) list") (call_id: pystr)

datatype message =
    HumanMessage (content: pystr)
  | AIMessage (content: pystr) (ai_tool_calls: "tool_call list")
  | SystemMessage (content: pystr)
  | ToolMessage (content: pystr) (tool_call_id: pystr)

text \<open>\<^verbatim>\<open>getattr(m, "tool_calls", None)\<close>: only an \<^verbatim>\<open>AIMessage\<close> has the attribute.\<close>

fun getattr_tool_calls :: "message \<Rightarrow> tool_call list option" where
  "getattr_tool_calls (AIMessage c tcs) = Some tcs"
| "getattr_tool_calls m = None"

fun isinstance_AIMessage :: "message \<Rightarrow> bool" where
  "isinstance_AIMessage (AIMessage c tcs) = True"
| "isinstance_AIMessage m = False"

text \<open>\<^verbatim>\<open>AgentState\<close> of \<^verbatim>\<open>graph_engine.py\<close>.\<close>

record agent_state =
  messages :: "message list"
  user_id :: pystr
  thread_id :: pystr
  steps :: nat

text \<open>
  What a node returns: the messages to add (the channel's reducer is \<^verbatim>\<open>operator.add\<close>)
  and, from the planner only, the new value of \<^verbatim>\<open>steps\<close>.
\<close>

record update =
  upd_messages :: "message list"
  upd_steps :: "nat option"

definition apply_update :: "agent_state \<Rightarrow> update \<Rightarrow> agent_state" where
  "apply_update s u =
     s\<lparr>messages := messages s @ upd_messages u,
       steps := (case upd_steps u of None \<Rightarrow> steps s | Some n \<Rightarrow> n)\<rparr>"

section \<open>Exceptions, external collaborators and their calls\<close>

datatype exn =
    IndexError
  | AttributeError
  | UnboundLocalError
  | GraphRecursionError
  | Raised pystr

text \<open>
  What a tool hands back before \<^verbatim>\<open>str()\<close> is applied: \<^verbatim>\<open>None\<close>, a string, or another
  object (a list of search hits, the sandbox's dictionary) given by its \<^verbatim>\<open>str()\<close> text.
\<close>

datatype pyval = PyNone | PyStr pystr | PyObj pystr

fun str_of :: "pyval \<Rightarrow> pystr" where
  "str_of PyNone = py ''None''"
| "str_of (PyStr s) = s"
| "str_of (PyObj r) = r"

type_synonym vector = "real list"

datatype vector_record =
  VectorRecord (vec_values: vector) (meta_report: pystr) (meta_query: pystr) (meta_user_id: pystr)

text \<open>The Pinecone index: namespace and id to the stored record.\<close>

type_synonym pinecone_index = "(pystr \<times> pystr) \<rightharpoonup> vector_record"

datatype match = Match (score: real) (match_report: pystr)

datatype stored_message = StoredMessage (role: pystr) (stored_content: pystr)

text \<open>The MongoDB collection: thread id and user id to the stored message list.\<close>

type_synonym conversations = "(pystr \<times> pystr) \<rightharpoonup> stored_message list"

record world =
  index :: pinecone_index
  conversation_store :: conversations

text \<open>
  The services the code calls and does not implement. Each returns \<open>Inr\<close> its value or
  \<open>Inl m\<close> when it raises an \<^verbatim>\<open>Exception\<close> whose \<^verbatim>\<open>str()\<close> is \<open>m\<close>.
  \<open>index_query\<close> is Pinecone's similarity search with \<^verbatim>\<open>top_k=1\<close> over the index
  contents; \<open>mongo_error\<close> is the failure, if any, of the MongoDB driver.
\<close>

record env =
  embed_query :: "pystr \<Rightarrow> pystr + vector"
  index_query :: "pinecone_index \<Rightarrow> vector \<Rightarrow> pystr \<Rightarrow> pystr \<Rightarrow> pystr + match list"
  index_upsert_error :: "pystr option"
  md5_hexdigest :: "pystr \<Rightarrow> pystr"
  asimilarity_search :: "pystr \<Rightarrow> pystr \<Rightarrow> nat \<Rightarrow> pystr + pystr list"
  model_with_tools_invoke :: "message list \<Rightarrow> pystr + (pystr \<times> tool_call list)"
  distiller_invoke :: "pystr \<Rightarrow> pystr + pystr"
  scrape_site :: "(pystr \<times> pystr) list \<Rightarrow> pystr + pyval"
  read_pdf_document :: "(pystr \<times> pystr) list \<Rightarrow> pystr + pyval"
  web_search :: "(pystr \<times> pystr) list \<Rightarrow> pystr + pyval"
  execute_python :: "(pystr \<times> pystr) list \<Rightarrow> pystr + pyval"
  mongo_error :: "pystr option"

text \<open>Every call to a collaborator is recorded, in order.\<close>

datatype event =
    EmbedQuery pystr
  | IndexQuery pystr
  | IndexUpsert pystr pystr
  | SimilaritySearch pystr pystr
  | ModelInvoke "message list"
  | DistillerInvoke pystr
  | ToolInvoke pystr "(pystr \<times> pystr) list"
  | FindOne pystr pystr
  | UpdateOne pystr pystr

text \<open>
  A computation: the calls it made, then the exception it raised or the value it returned.
\<close>

type_synonym 'a io = "event list \<times> (exn + 'a)"

definition return :: "'a \<Rightarrow> 'a io" where
  "return a = ([], Inr a)"

definition raise :: "exn \<Rightarrow> 'a io" where
  "raise e = ([], Inl e)"

definition bind :: "'a io \<Rightarrow> ('a \<Rightarrow> 'b io) \<Rightarrow> 'b io" where
  "bind m f =
     (case m of
        (t, Inl e) \<Rightarrow> (t, Inl e)
      | (t, Inr a) \<Rightarrow> (case f a of (t', r) \<Rightarrow> (t @ t', r)))"

text \<open>A call to a collaborator: one event, and its exception as \<open>Raised\<close>.\<close>

definition call :: "event \<Rightarrow> pystr + 'a \<Rightarrow> 'a io" where
  "call ev r = ([ev], (case r of Inl m \<Rightarrow> Inl (Raised m) | Inr a \<Rightarrow> Inr a))"

section \<open>\<^verbatim>\<open>memory_manager.py\<close> and \<^verbatim>\<open>rag_engine.py\<close>\<close>

definition reports_namespace :: "pystr \<Rightarrow> pystr" where
  "reports_namespace uid = py ''reports_'' @ uid"

text \<open>\<^verbatim>\<open>StrategicMemory.query_memory\<close>; no exception is handled here.\<close>

definition query_memory :: "env \<Rightarrow> pinecone_index \<Rightarrow> pystr \<Rightarrow> pystr \<Rightarrow> real \<Rightarrow> pystr option io" where
  "query_memory E idx query uid threshold =
     bind (call (EmbedQuery query) (embed_query E query)) (\<lambda>query_vector.
     bind (call (IndexQuery (reports_namespace uid))
             (index_query E idx query_vector (reports_namespace uid) uid)) (\<lambda>results.
     (case results of
        [] \<Rightarrow> return None
      | m # ms \<Rightarrow> if score m \<ge> threshold then return (Some (match_report m)) else return None)))"

definition default_threshold :: real where
  "default_threshold = 85 / 100"

text \<open>
  \<^verbatim>\<open>StrategicMemory.save_to_memory\<close>: the embedding and the upsert may raise; a successful
  upsert overwrites the record under the user's namespace and the id built from the hash.
\<close>

definition save_to_memory :: "env \<Rightarrow> pinecone_index \<Rightarrow> pystr \<Rightarrow> pystr \<Rightarrow> pystr \<Rightarrow> pinecone_index io" where
  "save_to_memory E idx query report uid =
     bind (call (EmbedQuery query) (embed_query E query)) (\<lambda>vec.
       let query_hash = md5_hexdigest E (uid @ py ''_'' @ query);
           vid = uid @ py ''_'' @ query_hash;
           ns = reports_namespace uid
       in call (IndexUpsert ns vid)
            (case index_upsert_error E of
               Some m \<Rightarrow> Inl m
             | None \<Rightarrow> Inr (idx((ns, vid) \<mapsto>
                 VectorRecord vec (take 50000 report) (take 1000 query) uid))))"

text \<open>\<^verbatim>\<open>StrategicMemory.load_conversation\<close> and \<^verbatim>\<open>save_conversation\<close>: both catch every exception.\<close>

definition load_conversation :: "env \<Rightarrow> conversations \<Rightarrow> pystr \<Rightarrow> pystr \<Rightarrow> stored_message list io" where
  "load_conversation E cs tid uid =
     ([FindOne tid uid],
      Inr (case mongo_error E of
             Some m \<Rightarrow> []
           | None \<Rightarrow> (case cs (tid, uid) of None \<Rightarrow> [] | Some ms \<Rightarrow> ms)))"

definition save_conversation ::
  "env \<Rightarrow> conversations \<Rightarrow> pystr \<Rightarrow> pystr \<Rightarrow> stored_message list \<Rightarrow> conversations io" where
  "save_conversation E cs tid uid ms =
     ([UpdateOne tid uid],
      Inr (case mongo_error E of
             Some m \<Rightarrow> cs
           | None \<Rightarrow> cs((tid, uid) \<mapsto> ms)))"

text \<open>
  \<^verbatim>\<open>RAGEngine.retrieve_relevant_context\<close>: the whole body is inside \<^verbatim>\<open>try\<close>, and the
  handler returns \<^verbatim>\<open>None\<close>.
\<close>

definition retrieve_relevant_context :: "env \<Rightarrow> pystr \<Rightarrow> pystr \<Rightarrow> nat \<Rightarrow> pystr option io" where
  "retrieve_relevant_context E query uid top_k =
     ([SimilaritySearch query uid],
      Inr (case asimilarity_search E query uid top_k of
             Inl m \<Rightarrow> None
           | Inr results \<Rightarrow>
               if results \<noteq> [] then
                 (let context = join [10, 10] results
                  in if strip context \<noteq> [] then Some context else None)
               else None))"

section \<open>\<^verbatim>\<open>orchestrator.py\<close>: the brain\<close>

definition instruction :: message where
  "instruction = SystemMessage (py (
     ''You are a Strategic Researcher. Your objective is to solve complex queries '' @
     ''autonomously using the available tools.\<newline>\<newline>'' @
     ''GUIDELINES:\<newline>'' @
     ''1. DISCOVERY: Use 'web_search' for current facts. If a URL is found, 'scrape_site' to read it.\<newline>'' @
     ''2. LOCAL INTEL: Use 'read_pdf_document' if the user provides a file path or document reference.\<newline>'' @
     ''3. PDF CONTEXT: If you see '[FROM YOUR DOCUMENTS]' in the context, that means relevant information '' @
     ''from the user's uploaded PDFs has been retrieved. PRIORITIZE this information and use it to answer the query. '' @
     ''Do NOT search the web if the answer is in the documents.\<newline>'' @
     ''4. ANALYSIS: Use 'execute_python' to calculate growth rates, statistics, or generate charts.\<newline>'' @
     ''5. VISUALIZATION: When asked for a chart, write valid matplotlib code and '' @
     ''ALWAYS include plt.savefig('output_chart.png').\<newline>'' @
     ''6. CONTEXT AWARENESS: You have access to a long-term memory (Pinecone). '' @
     ''If the information is retrieved from memory, summarize it immediately.\<newline>'' @
     ''7. TERMINATION: Once the information is gathered, provide a comprehensive textual report. '' @
     ''Do not call tools if the answer is already in the context history.''))"

text \<open>
  The context pruning of \<^verbatim>\<open>StrategicBrain.get_response\<close>:
  \<^verbatim>\<open>[messages[0]] + messages[-4:]\<close> when there are more than five messages.
\<close>

definition prune :: "message list \<Rightarrow> message list" where
  "prune msgs =
     (if length msgs > 5 then [msgs ! 0] @ drop (length msgs - 4) msgs else msgs)"

text \<open>\<^verbatim>\<open>StrategicBrain.get_response\<close>; the model's exception is not handled.\<close>

definition get_response :: "env \<Rightarrow> message list \<Rightarrow> message io" where
  "get_response E msgs =
     (let pruned = prune msgs
      in bind (call (ModelInvoke ([instruction] @ pruned))
                 (model_with_tools_invoke E ([instruction] @ pruned)))
           (\<lambda>(c, tcs). return (AIMessage c tcs)))"

text \<open>\<^verbatim>\<open>StrategicBrain.distill_scrape\<close>.\<close>

definition distill_prompt :: "pystr \<Rightarrow> pystr \<Rightarrow> pystr" where
  "distill_prompt truncated_text query =
     py ''Topic: '' @ query
       @ py ''. Extract specific metrics, dates, and core facts from this raw text:''
       @ [10, 10] @ truncated_text"

definition distill_scrape :: "env \<Rightarrow> pystr \<Rightarrow> pystr \<Rightarrow> pystr io" where
  "distill_scrape E raw_text query =
     (let truncated_text = take 15000 raw_text;
          prompt = distill_prompt truncated_text query
      in ([DistillerInvoke prompt],
          Inr (case distiller_invoke E prompt of
                 Inr response_content \<Rightarrow> response_content
               | Inl m \<Rightarrow> py ''Context distillation failed: '' @ take 100 m)))"

section \<open>\<^verbatim>\<open>graph_engine.py\<close>: the nodes\<close>

definition memory_sentinel :: pystr where
  "memory_sentinel = py ''[FROM MEMORY]''"

definition memory_content :: "pystr \<Rightarrow> pystr" where
  "memory_content cached_report = [0xF0, 0x178, 0xA7, 0xA0] @ py '' [FROM MEMORY]'' @ [10] @ cached_report"

definition documents_content :: "pystr \<Rightarrow> pystr" where
  "documents_content pdf_context =
     [0xF0, 0x178, 0x201C, 0x201E] @ py '' [FROM YOUR DOCUMENTS]'' @ [10]
       @ py ''Relevant context from your uploaded PDFs:'' @ [10, 10] @ pdf_context @ [10, 10]
       @ py (''IMPORTANT: Use this information from the user's documents to answer their query. '' @
             ''If the answer can be found in these documents, use it directly without searching the web.'')"

text \<open>Truth value of an optional string: \<^verbatim>\<open>None\<close> and the empty string are false.\<close>

fun truthy :: "pystr option \<Rightarrow> bool" where
  "truthy None = False"
| "truthy (Some s) = (s \<noteq> [])"

text \<open>
  \<^verbatim>\<open>ResearchGraph.check_cache\<close>. The query is the content of message 0 of the state. The
  cache message is appended first, the documents message after it.
\<close>

definition check_cache :: "env \<Rightarrow> pinecone_index \<Rightarrow> agent_state \<Rightarrow> update io" where
  "check_cache E idx st =
     (case messages st of
        [] \<Rightarrow> raise IndexError
      | m0 # rest \<Rightarrow>
          (let query = content m0; uid = user_id st
           in bind (query_memory E idx query uid default_threshold) (\<lambda>cached_report.
              bind (retrieve_relevant_context E query uid 5) (\<lambda>pdf_context.
                let context_messages =
                      (case cached_report of
                         None \<Rightarrow> []
                       | Some r \<Rightarrow> if r \<noteq> [] then [AIMessage (memory_content r) []] else []);
                    context_messages' = context_messages @
                      (case pdf_context of
                         None \<Rightarrow> []
                       | Some c \<Rightarrow>
                           if c \<noteq> [] \<and> strip c \<noteq> []
                           then [SystemMessage (documents_content c)] else [])
                in return \<lparr>upd_messages = context_messages', upd_steps = None\<rparr>))))"

datatype known_route = Known | Unknown

text \<open>\<^verbatim>\<open>ResearchGraph.is_it_known\<close>: only the last message of the state is inspected.\<close>

definition is_it_known :: "agent_state \<Rightarrow> known_route" where
  "is_it_known st =
     (let msgs = messages st
      in if msgs = [] then Unknown
         else (let last_msg = last msgs
               in if isinstance_AIMessage last_msg \<and> contains memory_sentinel (content last_msg)
                  then Known else Unknown))"

definition urgent_warning :: message where
  "urgent_warning = SystemMessage (py (
     ''URGENT: You have only 2 steps left. STOP researching immediately. '' @
     ''Use the information you already have to provide the best possible final answer.''))"

text \<open>
  \<^verbatim>\<open>ResearchGraph.call_model\<close>. Above eight steps the warning is appended to the state's
  own message list, in place; the state with that list is returned beside the update.
\<close>

definition call_model :: "env \<Rightarrow> agent_state \<Rightarrow> (agent_state \<times> update) io" where
  "call_model E st =
     (let current_steps = steps st;
          st' = (if current_steps > 8 then st\<lparr>messages := messages st @ [urgent_warning]\<rparr> else st)
      in bind (get_response E (messages st')) (\<lambda>response.
           return (st', \<lparr>upd_messages = [response], upd_steps = Some (current_steps + 1)\<rparr>)))"

text \<open>
  The body of the loop of \<^verbatim>\<open>ResearchGraph.call_tool\<close> up to the assignment of
  \<^verbatim>\<open>result\<close>. The variable is local to the function and keeps its value from one
  iteration to the next: \<open>None\<close> is "not yet bound". The chain of \<^verbatim>\<open>elif\<close> has no
  \<^verbatim>\<open>else\<close>, so another name leaves the variable as it was.
\<close>

definition no_documents_text :: pystr where
  "no_documents_text = py ''No relevant information found in your uploaded documents.''"

definition dispatch :: "env \<Rightarrow> pystr \<Rightarrow> pystr \<Rightarrow> pyval option \<Rightarrow> tool_call \<Rightarrow> pyval option io" where
  "dispatch E original_query uid result tc =
     (let tool_name = call_name tc; args = call_args tc
      in if tool_name = py ''scrape_site'' then
           bind (call (ToolInvoke tool_name args) (scrape_site E args)) (\<lambda>raw_result.
           bind (distill_scrape E (str_of raw_result) original_query) (\<lambda>r.
             return (Some (PyStr r))))
         else if tool_name = py ''read_pdf_document'' then
           bind (call (ToolInvoke tool_name args) (read_pdf_document E args)) (\<lambda>raw_result.
           bind (distill_scrape E (str_of raw_result) original_query) (\<lambda>r.
             return (Some (PyStr r))))
         else if tool_name = py ''query_user_pdfs'' then
           (let query_text = (case map_of args (py ''query'') of None \<Rightarrow> original_query | Some q \<Rightarrow> q)
            in bind (retrieve_relevant_context E query_text uid 5) (\<lambda>pdf_context.
                 return (Some (PyStr (case pdf_context of
                                        None \<Rightarrow> no_documents_text
                                      | Some c \<Rightarrow> if c \<noteq> [] then c else no_documents_text)))))
         else if tool_name = py ''web_search'' then
           bind (call (ToolInvoke tool_name args) (web_search E args)) (\<lambda>r. return (Some r))
         else if tool_name = py ''execute_python'' then
           bind (call (ToolInvoke tool_name args) (execute_python E args)) (\<lambda>r. return (Some r))
         else return result)"

text \<open>
  The loop itself: after the chain, \<^verbatim>\<open>str(result)\<close> is read (an unbound variable raises
  \<^verbatim>\<open>UnboundLocalError\<close>) and the observation is appended to \<^verbatim>\<open>tool_outputs\<close>.
\<close>

fun call_tool_loop ::
  "env \<Rightarrow> pystr \<Rightarrow> pystr \<Rightarrow> pyval option \<Rightarrow> message list \<Rightarrow> tool_call list \<Rightarrow> message list io" where
  "call_tool_loop E original_query uid result tool_outputs [] = return tool_outputs"
| "call_tool_loop E original_query uid result tool_outputs (tc # tcs) =
     bind (dispatch E original_query uid result tc) (\<lambda>result'.
       case result' of
         None \<Rightarrow> raise UnboundLocalError
       | Some v \<Rightarrow>
           call_tool_loop E original_query uid result'
             (tool_outputs @ [ToolMessage (str_of v) (call_id tc)]) tcs)"

text \<open>\<^verbatim>\<open>ResearchGraph.call_tool\<close>.\<close>

definition call_tool :: "env \<Rightarrow> agent_state \<Rightarrow> update io" where
  "call_tool E st =
     (case messages st of
        [] \<Rightarrow> raise IndexError
      | m0 # rest \<Rightarrow>
          (let last_message = last (messages st);
               original_query = content m0;
               uid = user_id st
           in case getattr_tool_calls last_message of
                None \<Rightarrow> raise AttributeError
              | Some tcs \<Rightarrow>
                  bind (call_tool_loop E original_query uid None [] tcs) (\<lambda>tool_outputs.
                    return \<lparr>upd_messages = tool_outputs, upd_steps = None\<rparr>)))"

datatype continue_route = Continue | End

text \<open>\<^verbatim>\<open>ResearchGraph.should_continue\<close>.\<close>

definition should_continue :: "agent_state \<Rightarrow> exn + continue_route" where
  "should_continue st =
     (let msgs = messages st
      in if msgs = [] then Inl IndexError
         else (let last_message = last msgs;
                   has_tool_calls = getattr_tool_calls last_message
               in if steps st \<ge> 12 then Inr End
                  else (case has_tool_calls of
                          None \<Rightarrow> Inr End
                        | Some tcs \<Rightarrow> if tcs \<noteq> [] then Inr Continue else Inr End)))"

section \<open>The compiled graph\<close>

text \<open>
  The graph built in \<^verbatim>\<open>ResearchGraph.__init__\<close>: entry point \<^verbatim>\<open>memory_check\<close>, the two
  conditional edges and the edge from \<^verbatim>\<open>executor\<close> back to \<^verbatim>\<open>planner\<close>. \<open>None\<close> is
  \<^verbatim>\<open>END\<close>.
\<close>

datatype node = memory_check | planner | executor

definition run_node :: "env \<Rightarrow> pinecone_index \<Rightarrow> node \<Rightarrow> agent_state \<Rightarrow> (agent_state \<times> update) io" where
  "run_node E idx n st =
     (case n of
        memory_check \<Rightarrow> bind (check_cache E idx st) (\<lambda>u. return (st, u))
      | planner \<Rightarrow> call_model E st
      | executor \<Rightarrow> bind (call_tool E st) (\<lambda>u. return (st, u)))"

definition next_node :: "node \<Rightarrow> agent_state \<Rightarrow> exn + node option" where
  "next_node n st =
     (case n of
        memory_check \<Rightarrow> (case is_it_known st of Known \<Rightarrow> Inr None | Unknown \<Rightarrow> Inr (Some planner))
      | planner \<Rightarrow>
          (case should_continue st of
             Inl e \<Rightarrow> Inl e
           | Inr Continue \<Rightarrow> Inr (Some executor)
           | Inr End \<Rightarrow> Inr None)
      | executor \<Rightarrow> Inr (Some planner))"

text \<open>
  \<^verbatim>\<open>self.app.astream(initial_state, config)\<close>: the nodes run one after the other, each
  yielding its name and update. The limit of the configuration is the third argument: the
  library raises \<^verbatim>\<open>GraphRecursionError\<close> once as many nodes as the limit have run, also
  when the last of them routes to \<^verbatim>\<open>END\<close>, so a stream completes only with fewer nodes
  than the limit. The output of the last node is yielded before the exception. The result
  is the calls made, the outputs yielded, and the exception or the final state.
\<close>

fun astream ::
  "env \<Rightarrow> pinecone_index \<Rightarrow> nat \<Rightarrow> node \<Rightarrow> agent_state
     \<Rightarrow> event list \<times> (node \<times> update) list \<times> (exn + agent_state)" where
  "astream E idx 0 n st = ([], [], Inl GraphRecursionError)"
| "astream E idx (Suc k) n st =
     (case run_node E idx n st of
        (t, Inl e) \<Rightarrow> (t, [], Inl e)
      | (t, Inr (st1, u)) \<Rightarrow>
          (let st' = apply_update st1 u
           in case next_node n st' of
                Inl e \<Rightarrow> (t, [(n, u)], Inl e)
              | Inr nx \<Rightarrow>
                  if k = 0 then (t, [(n, u)], Inl GraphRecursionError)
                  else (case nx of
                          None \<Rightarrow> (t, [(n, u)], Inr st')
                        | Some n' \<Rightarrow>
                            (case astream E idx k n' st' of
                               (t', outs, r) \<Rightarrow> (t @ t', (n, u) # outs, r)))))"

section \<open>\<^verbatim>\<open>ResearchGraph.run\<close>\<close>

text \<open>The stored dictionaries of the thread, as messages: other roles are skipped.\<close>

fun history_messages :: "stored_message list \<Rightarrow> message list" where
  "history_messages [] = []"
| "history_messages (msg # msgs) =
     (if role msg = py ''user'' then HumanMessage (stored_content msg) # history_messages msgs
      else if role msg = py ''assistant'' then AIMessage (stored_content msg) [] # history_messages msgs
      else history_messages msgs)"

text \<open>
  The loop over the streamed outputs, which keeps in \<^verbatim>\<open>final_msg\<close> the content of the last
  message without tool calls that the planner or the cache check produced.
\<close>

fun final_message :: "pystr \<Rightarrow> (node \<times> update) list \<Rightarrow> pystr" where
  "final_message final_msg [] = final_msg"
| "final_message final_msg ((key, val) # outs) =
     (let node_messages = upd_messages val
      in if node_messages = [] then final_message final_msg outs
         else (let last_m = last node_messages
               in if key = planner \<or> key = memory_check then
                    (case getattr_tool_calls last_m of
                       Some (tc # tcs) \<Rightarrow> final_message final_msg outs
                     | _ \<Rightarrow> final_message (content last_m) outs)
                  else final_message final_msg outs))"

fun messages_for_storage :: "message list \<Rightarrow> stored_message list" where
  "messages_for_storage [] = []"
| "messages_for_storage (HumanMessage c # ms) = StoredMessage (py ''user'') c # messages_for_storage ms"
| "messages_for_storage (AIMessage c tcs # ms) = StoredMessage (py ''assistant'') c # messages_for_storage ms"
| "messages_for_storage (SystemMessage c # ms) = StoredMessage (py ''system'') c # messages_for_storage ms"
| "messages_for_storage (ToolMessage c i # ms) = messages_for_storage ms"

definition recursion_limit :: nat where
  "recursion_limit = 20"

definition apology :: pystr where
  "apology = py ''I apologize, but I couldn't generate a response. Please try again.''"

definition initial_messages :: "stored_message list \<Rightarrow> pystr \<Rightarrow> message list" where
  "initial_messages history query = history_messages history @ [HumanMessage query]"

text \<open>
  The archiving at the end of \<^verbatim>\<open>run\<close>: the report goes to the similarity cache unless it
  carries the sentinel, then the conversation is saved. An exception of
  \<^verbatim>\<open>save_to_memory\<close> leaves the function before the conversation is saved.
\<close>

definition archive ::
  "env \<Rightarrow> world \<Rightarrow> pystr \<Rightarrow> pystr \<Rightarrow> pystr \<Rightarrow> message list \<Rightarrow> pystr \<Rightarrow> event list \<times> world \<times> (exn + unit)" where
  "archive E w query tid uid init_msgs final_msg =
     (if final_msg \<noteq> [] then
        (case (if \<not> contains memory_sentinel final_msg
               then save_to_memory E (index w) query final_msg uid
               else return (index w)) of
           (t1, Inl e) \<Rightarrow> (t1, w, Inl e)
         | (t1, Inr idx') \<Rightarrow>
             (let all_messages = init_msgs @ [AIMessage final_msg []]
              in case save_conversation E (conversation_store w) tid uid
                        (messages_for_storage all_messages) of
                   (t2, Inl e) \<Rightarrow> (t1 @ t2, w\<lparr>index := idx'\<rparr>, Inl e)
                 | (t2, Inr cs') \<Rightarrow>
                     (t1 @ t2, w\<lparr>index := idx', conversation_store := cs'\<rparr>, Inr ())))
      else ([], w, Inr ()))"

text \<open>
  \<^verbatim>\<open>ResearchGraph.run\<close> up to the end of the streaming loop: the history is loaded, the
  query appended, the graph streamed under the recursion limit, and \<^verbatim>\<open>final_msg\<close>
  collected. The value is the initial messages, the outputs and \<^verbatim>\<open>final_msg\<close>.
\<close>

definition run_graph ::
  "env \<Rightarrow> world \<Rightarrow> pystr \<Rightarrow> pystr \<Rightarrow> pystr
     \<Rightarrow> (message list \<times> (node \<times> update) list \<times> pystr) io" where
  "run_graph E w query tid uid =
     (case load_conversation E (conversation_store w) tid uid of
        (t0, Inl e) \<Rightarrow> (t0, Inl e)
      | (t0, Inr history) \<Rightarrow>
          (let msgs = initial_messages history query;
               initial_state = \<lparr>messages = msgs, user_id = uid, thread_id = tid, steps = 0\<rparr>
           in case astream E (index w) recursion_limit memory_check initial_state of
                (t1, outs, Inl e) \<Rightarrow> (t0 @ t1, Inl e)
              | (t1, outs, Inr final_state) \<Rightarrow>
                  (t0 @ t1, Inr (msgs, outs, final_message [] outs))))"

text \<open>
  \<^verbatim>\<open>ResearchGraph.run\<close>: the answer returned, with the calls made and the stores as the run
  leaves them. The list of generated chart files, a difference of two directory listings,
  is left out.
\<close>

definition run ::
  "env \<Rightarrow> world \<Rightarrow> pystr \<Rightarrow> pystr \<Rightarrow> pystr \<Rightarrow> event list \<times> world \<times> (exn + pystr)" where
  "run E w query tid uid =
     (case run_graph E w query tid uid of
        (t1, Inl e) \<Rightarrow> (t1, w, Inl e)
      | (t1, Inr (msgs, outs, final_msg)) \<Rightarrow>
          (case archive E w query tid uid msgs final_msg of
             (t2, w', Inl e) \<Rightarrow> (t1 @ t2, w', Inl e)
           | (t2, w', Inr u) \<Rightarrow>
               (t1 @ t2, w', Inr (if final_msg \<noteq> [] then final_msg else apology))))"

section \<open>Concrete collaborators\<close>

text \<open>
  Collaborators for concrete runs. With \<open>quiet_env\<close> nothing is cached, nothing is
  retrieved, no call fails and the model answers at once; the others differ from it in
  one behaviour each.
\<close>

definition quiet_env :: env where
  "quiet_env =
     \<lparr>embed_query = (\<lambda>q. Inr []),
      index_query = (\<lambda>idx v ns uid. Inr []),
      index_upsert_error = None,
      md5_hexdigest = (\<lambda>s. s),
      asimilarity_search = (\<lambda>q ns k. Inr []),
      model_with_tools_invoke = (\<lambda>msgs. Inr (py ''done'', [])),
      distiller_invoke = (\<lambda>p. Inr (py ''facts'')),
      scrape_site = (\<lambda>a. Inr (PyStr (py ''ok''))),
      read_pdf_document = (\<lambda>a. Inr (PyStr (py ''text''))),
      web_search = (\<lambda>a. Inr (PyStr (py ''ok''))),
      execute_python = (\<lambda>a. Inr (PyObj (py ''{}''))),
      mongo_error = None\<rparr>"

definition empty_world :: world where
  "empty_world = \<lparr>index = Map.empty, conversation_store = Map.empty\<rparr>"

text \<open>The cache holds a report scored 0.9 for the query.\<close>

definition hit_env :: env where
  "hit_env = quiet_env\<lparr>index_query := (\<lambda>idx v ns uid. Inr [Match (9 / 10) (py ''R'')])\<rparr>"

text \<open>The same, and the user's documents hold a passage for the query.\<close>

definition hit_docs_env :: env where
  "hit_docs_env = hit_env\<lparr>asimilarity_search := (\<lambda>q ns k. Inr [py ''ctx''])\<rparr>"

text \<open>The embedding service is down, so the similarity-cache lookup raises.\<close>

definition cache_down_env :: env where
  "cache_down_env = quiet_env\<lparr>embed_query := (\<lambda>q. Inl (py ''unavailable''))\<rparr>"

text \<open>The document store is down, so the knowledge retrieval raises.\<close>

definition rag_down_env :: env where
  "rag_down_env = quiet_env\<lparr>asimilarity_search := (\<lambda>q ns k. Inl (py ''unavailable''))\<rparr>"

text \<open>The secondary model is down.\<close>

definition distiller_down_env :: env where
  "distiller_down_env = quiet_env\<lparr>distiller_invoke := (\<lambda>p. Inl (py ''timeout''))\<rparr>"

text \<open>The search tool rejects its arguments.\<close>

definition search_raises_env :: env where
  "search_raises_env = quiet_env\<lparr>web_search := (\<lambda>a. Inl (py ''validation error''))\<rparr>"

text \<open>A thread with one earlier exchange.\<close>

definition thread_world :: world where
  "thread_world =
     \<lparr>index = Map.empty,
      conversation_store =
        [(py ''t'', py ''u'') \<mapsto>
           [StoredMessage (py ''user'') (py ''q0''), StoredMessage (py ''assistant'') (py ''a0'')]]\<rparr>"

text \<open>A state after a planner turn, with the requests of that turn.\<close>

definition turn_state :: "tool_call list \<Rightarrow> agent_state" where
  "turn_state tcs =
     \<lparr>messages = [HumanMessage (py ''q''), AIMessage [] tcs],
      user_id = py ''u'', thread_id = py ''t'', steps = 1\<rparr>"

section \<open>The step counter along a run\<close>

text \<open>The number of planner executions among the outputs of a stream.\<close>

fun planner_count :: "(node \<times> update) list \<Rightarrow> nat" where
  "planner_count [] = 0"
| "planner_count ((n, u) # outs) =
     (if n = planner then Suc (planner_count outs) else planner_count outs)"

text \<open>
  \<open>counted s outs\<close>: starting from the counter value \<open>s\<close>, every planner output sets
  \<^verbatim>\<open>steps\<close> to one more than it was, at most 12, every other output leaves \<^verbatim>\<open>steps\<close> out
  of its update, and no output follows the one that sets it to 12.
\<close>

fun counted :: "nat \<Rightarrow> (node \<times> update) list \<Rightarrow> bool" where
  "counted s [] = True"
| "counted s ((n, u) # outs) =
     (if n = planner
      then upd_steps u = Some (Suc s) \<and> Suc s \<le> 12 \<and> (Suc s = 12 \<longrightarrow> outs = [])
             \<and> counted (Suc s) outs
      else upd_steps u = None \<and> counted s outs)"

section \<open>The names the dispatcher routes\<close>

text \<open>The names compared in the \<^verbatim>\<open>if\<close>/\<^verbatim>\<open>elif\<close> chain of \<^verbatim>\<open>call_tool\<close>, in its order.\<close>

definition routing_table :: "pystr list" where
  "routing_table = [py ''scrape_site'', py ''read_pdf_document'', py ''query_user_pdfs'',
                    py ''web_search'', py ''execute_python'']"

text \<open>
  The capability a request names does not raise on the request's arguments. The retrieval
  behind \<^verbatim>\<open>query_user_pdfs\<close> never raises, and another name invokes nothing.
\<close>

definition invocation_returns :: "env \<Rightarrow> tool_call \<Rightarrow> bool" where
  "invocation_returns E tc =
     ((call_name tc = py ''scrape_site'' \<longrightarrow> \<not> isl (scrape_site E (call_args tc))) \<and>
      (call_name tc = py ''read_pdf_document'' \<longrightarrow> \<not> isl (read_pdf_document E (call_args tc))) \<and>
      (call_name tc = py ''web_search'' \<longrightarrow> \<not> isl (web_search E (call_args tc))) \<and>
      (call_name tc = py ''execute_python'' \<longrightarrow> \<not> isl (execute_python E (call_args tc))))"


section \<open>Calls and their sequencing\<close>

lemma bind_Inr: "bind (t, Inr a) f = (t @ fst (f a), snd (f a))"
  by (simp add: bind_def split: prod.splits)

lemma bind_Inl: "bind (t, Inl e) f = (t, Inl e)"
  by (simp add: bind_def)

lemma bind_return: "bind (return a) f = f a"
  by (simp add: bind_def return_def split: prod.splits)

lemma bind_raise: "bind (raise e) f = raise e"
  by (simp add: bind_def raise_def)

lemma call_Inr: "call ev (Inr a) = ([ev], Inr a)"
  by (simp add: call_def)

lemma call_Inl: "call ev (Inl m) = ([ev], Inl (Raised m))"
  by (simp add: call_def)

lemmas io_simps = bind_Inr bind_Inl bind_return bind_raise call_Inr call_Inl

lemma names_distinct:
  "py ''scrape_site'' \<noteq> py ''read_pdf_document''"
  "py ''scrape_site'' \<noteq> py ''query_user_pdfs''"
  "py ''scrape_site'' \<noteq> py ''web_search''"
  "py ''scrape_site'' \<noteq> py ''execute_python''"
  "py ''read_pdf_document'' \<noteq> py ''query_user_pdfs''"
  "py ''read_pdf_document'' \<noteq> py ''web_search''"
  "py ''read_pdf_document'' \<noteq> py ''execute_python''"
  "py ''query_user_pdfs'' \<noteq> py ''web_search''"
  "py ''query_user_pdfs'' \<noteq> py ''execute_python''"
  "py ''web_search'' \<noteq> py ''execute_python''"
  "py ''xyz'' \<noteq> py ''scrape_site''"
  "py ''xyz'' \<noteq> py ''read_pdf_document''"
  "py ''xyz'' \<noteq> py ''query_user_pdfs''"
  "py ''xyz'' \<noteq> py ''web_search''"
  "py ''xyz'' \<noteq> py ''execute_python''"
  by (simp_all add: py_def)

lemma distill_scrape_eq:
  "distill_scrape E raw_text query =
     ([DistillerInvoke (distill_prompt (take 15000 raw_text) query)],
      Inr (case distiller_invoke E (distill_prompt (take 15000 raw_text) query) of
             Inr c \<Rightarrow> c
           | Inl m \<Rightarrow> py ''Context distillation failed: '' @ take 100 m))"
  by (simp add: distill_scrape_def Let_def)

lemma retrieve_events: "fst (retrieve_relevant_context E q u k) = [SimilaritySearch q u]"
  by (simp add: retrieve_relevant_context_def)

lemma retrieve_returns: "\<exists>c. snd (retrieve_relevant_context E q u k) = Inr c"
  by (simp add: retrieve_relevant_context_def)

text \<open>
  C9. For every raw text and query, the distiller hands the secondary model a prompt built
  from at most the first 15000 characters of the raw text (the result is the same as on
  the truncated text), and it never raises: when the secondary model fails, the value is
  the non-empty diagnostic string.
\<close>

theorem distill_scrape_contained:
  "\<exists>result.
     distill_scrape E raw_text query
       = ([DistillerInvoke (distill_prompt (take 15000 raw_text) query)], Inr result)
     \<and> length (take 15000 raw_text) \<le> 15000
     \<and> distill_scrape E (take 15000 raw_text) query = distill_scrape E raw_text query
     \<and> (\<forall>m. distiller_invoke E (distill_prompt (take 15000 raw_text) query) = Inl m
          \<longrightarrow> result = py ''Context distillation failed: '' @ take 100 m \<and> result \<noteq> [])
     \<and> (\<forall>c. distiller_invoke E (distill_prompt (take 15000 raw_text) query) = Inr c
          \<longrightarrow> result = c)"
  by (auto simp: distill_scrape_eq py_def)

theorem distill_scrape_contained_witness:
  "distill_scrape distiller_down_env (replicate 20000 65) (py ''q'')
     = ([DistillerInvoke (distill_prompt (replicate 15000 65) (py ''q''))],
        Inr (py ''Context distillation failed: timeout''))"
  using distill_scrape_contained [of distiller_down_env "replicate 20000 65" "py ''q''"]
  by (auto simp: distiller_down_env_def quiet_env_def py_def)

lemma dispatch_scrape:
  "call_name tc = py ''scrape_site'' \<Longrightarrow>
   dispatch E oq uid res tc =
     (case scrape_site E (call_args tc) of
        Inl m \<Rightarrow> ([ToolInvoke (call_name tc) (call_args tc)], Inl (Raised m))
      | Inr raw \<Rightarrow>
          ([ToolInvoke (call_name tc) (call_args tc),
            DistillerInvoke (distill_prompt (take 15000 (str_of raw)) oq)],
           Inr (Some (PyStr (case distiller_invoke E (distill_prompt (take 15000 (str_of raw)) oq) of
                               Inr c \<Rightarrow> c
                             | Inl m \<Rightarrow> py ''Context distillation failed: '' @ take 100 m)))))"
  by (simp add: dispatch_def distill_scrape_eq io_simps return_def Let_def split: sum.splits)

lemma dispatch_read_pdf:
  "call_name tc = py ''read_pdf_document'' \<Longrightarrow>
   dispatch E oq uid res tc =
     (case read_pdf_document E (call_args tc) of
        Inl m \<Rightarrow> ([ToolInvoke (call_name tc) (call_args tc)], Inl (Raised m))
      | Inr raw \<Rightarrow>
          ([ToolInvoke (call_name tc) (call_args tc),
            DistillerInvoke (distill_prompt (take 15000 (str_of raw)) oq)],
           Inr (Some (PyStr (case distiller_invoke E (distill_prompt (take 15000 (str_of raw)) oq) of
                               Inr c \<Rightarrow> c
                             | Inl m \<Rightarrow> py ''Context distillation failed: '' @ take 100 m)))))"
  by (simp add: dispatch_def distill_scrape_eq io_simps return_def names_distinct names_distinct[symmetric] Let_def split: sum.splits)

lemma dispatch_query_pdfs:
  "call_name tc = py ''query_user_pdfs'' \<Longrightarrow>
   dispatch E oq uid res tc =
     (let query_text = (case map_of (call_args tc) (py ''query'') of None \<Rightarrow> oq | Some q \<Rightarrow> q)
      in ([SimilaritySearch query_text uid],
          Inr (Some (PyStr (case snd (retrieve_relevant_context E query_text uid 5) of
                              Inr (Some c) \<Rightarrow> if c \<noteq> [] then c else no_documents_text
                            | _ \<Rightarrow> no_documents_text)))))"
  by (simp add: dispatch_def retrieve_relevant_context_def bind_def return_def names_distinct names_distinct[symmetric] Let_def
      split: sum.splits option.splits)

lemma dispatch_web_search:
  "call_name tc = py ''web_search'' \<Longrightarrow>
   dispatch E oq uid res tc =
     (case web_search E (call_args tc) of
        Inl m \<Rightarrow> ([ToolInvoke (call_name tc) (call_args tc)], Inl (Raised m))
      | Inr v \<Rightarrow> ([ToolInvoke (call_name tc) (call_args tc)], Inr (Some v)))"
  by (simp add: dispatch_def io_simps return_def names_distinct names_distinct[symmetric] Let_def split: sum.splits)

lemma dispatch_execute_python:
  "call_name tc = py ''execute_python'' \<Longrightarrow>
   dispatch E oq uid res tc =
     (case execute_python E (call_args tc) of
        Inl m \<Rightarrow> ([ToolInvoke (call_name tc) (call_args tc)], Inl (Raised m))
      | Inr v \<Rightarrow> ([ToolInvoke (call_name tc) (call_args tc)], Inr (Some v)))"
  by (simp add: dispatch_def io_simps return_def names_distinct names_distinct[symmetric] Let_def split: sum.splits)

section \<open>The dispatcher\<close>

lemma dispatch_unknown:
  "call_name tc \<notin> set routing_table \<Longrightarrow> dispatch E oq uid res tc = ([], Inr res)"
  by (simp add: dispatch_def routing_table_def return_def Let_def)

lemma dispatch_routable:
  assumes "call_name tc \<in> set routing_table" and "invocation_returns E tc"
  shows "\<exists>t v. dispatch E oq uid res tc = (t, Inr (Some v))"
proof -
  consider "call_name tc = py ''scrape_site''" | "call_name tc = py ''read_pdf_document''"
    | "call_name tc = py ''query_user_pdfs''" | "call_name tc = py ''web_search''"
    | "call_name tc = py ''execute_python''"
    using assms(1) by (auto simp: routing_table_def)
  then show ?thesis
  proof cases
    case 1
    with assms(2) show ?thesis
      by (auto simp: dispatch_scrape invocation_returns_def split: sum.splits)
  next
    case 2
    with assms(2) show ?thesis
      by (auto simp: dispatch_read_pdf invocation_returns_def split: sum.splits)
  next
    case 3
    then show ?thesis by (simp add: dispatch_query_pdfs Let_def)
  next
    case 4
    with assms(2) show ?thesis
      by (auto simp: dispatch_web_search invocation_returns_def split: sum.splits)
  next
    case 5
    with assms(2) show ?thesis
      by (auto simp: dispatch_execute_python invocation_returns_def split: sum.splits)
  qed
qed

lemma dispatch_bound:
  assumes "res \<noteq> None" and "invocation_returns E tc"
  shows "\<exists>t v. dispatch E oq uid res tc = (t, Inr (Some v))"
proof (cases "call_name tc \<in> set routing_table")
  case True
  then show ?thesis using assms(2) by (rule dispatch_routable)
next
  case False
  with assms(1) show ?thesis by (auto simp: dispatch_unknown)
qed

lemma loop_Cons_Some:
  "dispatch E oq uid res tc = (t, Inr (Some v)) \<Longrightarrow>
   call_tool_loop E oq uid res outs (tc # tcs) =
     (t @ fst (call_tool_loop E oq uid (Some v) (outs @ [ToolMessage (str_of v) (call_id tc)]) tcs),
      snd (call_tool_loop E oq uid (Some v) (outs @ [ToolMessage (str_of v) (call_id tc)]) tcs))"
  by (simp add: bind_Inr)

lemma loop_Cons_None:
  "dispatch E oq uid res tc = (t, Inr None) \<Longrightarrow>
   call_tool_loop E oq uid res outs (tc # tcs) = (t, Inl UnboundLocalError)"
  by (simp add: bind_Inr raise_def)

lemma loop_Cons_Inl:
  "dispatch E oq uid res tc = (t, Inl e) \<Longrightarrow>
   call_tool_loop E oq uid res outs (tc # tcs) = (t, Inl e)"
  by (simp add: bind_Inl)

lemma loop_shape:
  "call_tool_loop E oq uid res outs tcs = (t, Inr outs') \<Longrightarrow>
   \<exists>new. outs' = outs @ new \<and> length new = length tcs
     \<and> (\<forall>i < length tcs. \<exists>c. new ! i = ToolMessage c (call_id (tcs ! i)))"
proof (induction tcs arbitrary: res outs t)
  case Nil
  then show ?case by (simp add: return_def)
next
  case (Cons tc tcs)
  obtain t1 r1 where d: "dispatch E oq uid res tc = (t1, r1)" by (cases "dispatch E oq uid res tc")
  show ?case
  proof (cases r1)
    case (Inl e)
    with d Cons.prems show ?thesis by (simp add: bind_Inl)
  next
    case (Inr b)
    show ?thesis
    proof (cases b)
      case None
      with d Inr Cons.prems show ?thesis by (simp add: bind_Inr raise_def)
    next
      case (Some v)
      let ?m = "ToolMessage (str_of v) (call_id tc)"
      from d Inr Some have "dispatch E oq uid res tc = (t1, Inr (Some v))" by simp
      from loop_Cons_Some [OF this, of outs tcs] Cons.prems
      have "snd (call_tool_loop E oq uid (Some v) (outs @ [?m]) tcs) = Inr outs'"
        by simp
      then have "call_tool_loop E oq uid (Some v) (outs @ [?m]) tcs
                   = (fst (call_tool_loop E oq uid (Some v) (outs @ [?m]) tcs), Inr outs')"
        by (metis prod.collapse)
      from Cons.IH [OF this] obtain new where
        n: "outs' = (outs @ [?m]) @ new" "length new = length tcs"
           "\<forall>i < length tcs. \<exists>c. new ! i = ToolMessage c (call_id (tcs ! i))"
        by blast
      have "\<forall>i < length (tc # tcs). \<exists>c. (?m # new) ! i = ToolMessage c (call_id ((tc # tcs) ! i))"
        using n(3) by (auto simp: nth_Cons split: nat.splits)
      with n(1,2) show ?thesis
        by (intro exI [of _ "?m # new"]) simp
    qed
  qed
qed

lemma loop_total:
  "res \<noteq> None \<or> tcs = [] \<or> call_name (hd tcs) \<in> set routing_table \<Longrightarrow>
   \<forall>tc \<in> set tcs. invocation_returns E tc \<Longrightarrow>
   \<exists>t outs'. call_tool_loop E oq uid res outs tcs = (t, Inr outs')"
proof (induction tcs arbitrary: res outs)
  case Nil
  then show ?case by (simp add: return_def)
next
  case (Cons tc tcs)
  from Cons.prems have "\<exists>t v. dispatch E oq uid res tc = (t, Inr (Some v))"
    by (cases "res = None") (auto intro: dispatch_routable dispatch_bound)
  then obtain t1 v where d: "dispatch E oq uid res tc = (t1, Inr (Some v))" by blast
  from Cons.prems(2) have "\<forall>tc \<in> set tcs. invocation_returns E tc" by simp
  from Cons.IH [of "Some v", OF _ this] obtain t2 outs' where
    "call_tool_loop E oq uid (Some v) (outs @ [ToolMessage (str_of v) (call_id tc)]) tcs = (t2, Inr outs')"
    by blast
  with loop_Cons_Some [OF d, of outs tcs] show ?case by simp
qed

text \<open>
  What does hold of the dispatcher: when the first request names a routed capability and
  none of the capabilities raises, it returns exactly one tool-observation message per
  request, each tagged with that request's correlation identifier, in the order of the
  requests.
\<close>

lemma call_tool_observations:
  assumes "messages st \<noteq> []"
    and "getattr_tool_calls (last (messages st)) = Some tcs"
    and "tcs = [] \<or> call_name (hd tcs) \<in> set routing_table"
    and "\<forall>tc \<in> set tcs. invocation_returns E tc"
  shows "\<exists>t outs. call_tool E st = (t, Inr \<lparr>upd_messages = outs, upd_steps = None\<rparr>)
           \<and> length outs = length tcs
           \<and> (\<forall>i < length tcs. \<exists>c. outs ! i = ToolMessage c (call_id (tcs ! i)))"
proof -
  obtain m0 rest where ms: "messages st = m0 # rest"
    using assms(1) by (cases "messages st") auto
  from assms(3,4) obtain t outs where
    l: "call_tool_loop E (content m0) (user_id st) None [] tcs = (t, Inr outs)"
    using loop_total [of None tcs E "content m0" "user_id st" "[]"] by auto
  from loop_shape [OF l] have
    "length outs = length tcs \<and> (\<forall>i < length tcs. \<exists>c. outs ! i = ToolMessage c (call_id (tcs ! i)))"
    by auto
  moreover have "call_tool E st = (t, Inr \<lparr>upd_messages = outs, upd_steps = None\<rparr>)"
    using ms assms(2) l by (simp add: call_tool_def bind_Inr return_def)
  ultimately show ?thesis by blast
qed

lemma call_tool_observations_example:
  "\<exists>t outs. call_tool quiet_env
       (turn_state [ToolCall (py ''web_search'') [] (py ''a''), ToolCall (py ''scrape_site'') [] (py ''b'')])
         = (t, Inr \<lparr>upd_messages = outs, upd_steps = None\<rparr>)
     \<and> length outs = 2
     \<and> (\<exists>c. outs ! 0 = ToolMessage c (py ''a'')) \<and> (\<exists>c. outs ! 1 = ToolMessage c (py ''b''))"
proof -
  let ?tcs = "[ToolCall (py ''web_search'') [] (py ''a''), ToolCall (py ''scrape_site'') [] (py ''b'')]"
  have a: "messages (turn_state ?tcs) \<noteq> []" by (simp add: turn_state_def)
  have b: "getattr_tool_calls (last (messages (turn_state ?tcs))) = Some ?tcs"
    by (simp add: turn_state_def)
  have c: "?tcs = [] \<or> call_name (hd ?tcs) \<in> set routing_table"
    by (simp add: routing_table_def)
  have d: "\<forall>tc \<in> set ?tcs. invocation_returns quiet_env tc"
    by (simp add: invocation_returns_def quiet_env_def)
  from call_tool_observations [OF a b c d] obtain t outs where
    r: "call_tool quiet_env (turn_state ?tcs) = (t, Inr \<lparr>upd_messages = outs, upd_steps = None\<rparr>)"
       "length outs = length ?tcs"
       "\<forall>i < length ?tcs. \<exists>c. outs ! i = ToolMessage c (call_id (?tcs ! i))"
    by blast
  have "\<exists>c. outs ! 0 = ToolMessage c (py ''a'')"
    using r(3) [rule_format, of 0] by simp
  moreover have "\<exists>c. outs ! 1 = ToolMessage c (py ''b'')"
    using r(3) [rule_format, of 1] by simp
  ultimately show ?thesis using r(1,2) by auto
qed

text \<open>
  C8. A request whose capability raises on its arguments, here \<^verbatim>\<open>web_search\<close> called
  without a query, gets no observation: no handler surrounds the invocation and the
  exception leaves \<^verbatim>\<open>call_tool\<close>. A turn whose first request names no routed capability
  gets no observation for any of its requests.
\<close>

theorem call_tool_capability_raises:
  "call_tool search_raises_env (turn_state [ToolCall (py ''web_search'') [] (py ''call_1'')])
     = ([ToolInvoke (py ''web_search'') []], Inl (Raised (py ''validation error'')))
   \<and> call_tool quiet_env
       (turn_state [ToolCall (py ''xyz'') [] (py ''call_1''), ToolCall (py ''web_search'') [] (py ''call_2'')])
     = ([], Inl UnboundLocalError)"
  by (simp add: call_tool_def turn_state_def dispatch_web_search dispatch_unknown routing_table_def
      names_distinct search_raises_env_def quiet_env_def io_simps return_def raise_def)

text \<open>
  C3. The request "xyz" is in no branch of the chain. As the first request of a turn it
  leaves \<^verbatim>\<open>result\<close> unbound and \<^verbatim>\<open>call_tool\<close> raises \<^verbatim>\<open>UnboundLocalError\<close>: no
  observation names the capability and the run does not go back to the planner. After
  another request it receives that request's result as its own observation.
\<close>

theorem call_tool_unknown_name:
  "call_tool quiet_env (turn_state [ToolCall (py ''xyz'') [] (py ''call_1'')])
     = ([], Inl UnboundLocalError)
   \<and> call_tool quiet_env
       (turn_state [ToolCall (py ''web_search'') [] (py ''call_1''), ToolCall (py ''xyz'') [] (py ''call_2'')])
     = ([ToolInvoke (py ''web_search'') []],
        Inr \<lparr>upd_messages = [ToolMessage (py ''ok'') (py ''call_1''), ToolMessage (py ''ok'') (py ''call_2'')],
             upd_steps = None\<rparr>)"
  by (simp add: call_tool_def turn_state_def dispatch_web_search dispatch_unknown routing_table_def
      names_distinct quiet_env_def io_simps return_def raise_def)




lemma astream_raise:
  "run_node E idx n st = (t, Inl e) \<Longrightarrow> astream E idx (Suc k) n st = (t, [], Inl e)"
  by simp

lemma astream_end:
  "run_node E idx n st = (t, Inr (st1, u)) \<Longrightarrow> next_node n (apply_update st1 u) = Inr None \<Longrightarrow>
   astream E idx (Suc (Suc k)) n st = (t, [(n, u)], Inr (apply_update st1 u))"
  by simp

lemma astream_next:
  "run_node E idx n st = (t, Inr (st1, u)) \<Longrightarrow> next_node n (apply_update st1 u) = Inr (Some n') \<Longrightarrow>
   astream E idx (Suc (Suc k)) n st =
     (t @ fst (astream E idx (Suc k) n' (apply_update st1 u)),
      (n, u) # fst (snd (astream E idx (Suc k) n' (apply_update st1 u))),
      snd (snd (astream E idx (Suc k) n' (apply_update st1 u))))"
  by (simp split: prod.splits)

lemma astream_limit:
  "run_node E idx n st = (t, Inr (st1, u)) \<Longrightarrow> next_node n (apply_update st1 u) = Inr nx \<Longrightarrow>
   astream E idx (Suc 0) n st = (t, [(n, u)], Inl GraphRecursionError)"
  by simp

lemma astream_route_raise:
  "run_node E idx n st = (t, Inr (st1, u)) \<Longrightarrow> next_node n (apply_update st1 u) = Inl e \<Longrightarrow>
   astream E idx (Suc k) n st = (t, [(n, u)], Inl e)"
  by simp

lemma roles_distinct: "py ''assistant'' \<noteq> py ''user''" "py ''system'' \<noteq> py ''user''"
  "py ''system'' \<noteq> py ''assistant''"
  by (simp_all add: py_def)

lemma ctx_truthy: "py ''ctx'' \<noteq> []" "strip (py ''ctx'') \<noteq> []" "py ''R'' \<noteq> []" "py ''done'' \<noteq> []"
  by (simp_all add: py_def strip_def isspace_def)

lemma recursion_limit_Suc: "recursion_limit = Suc (Suc (Suc 17))"
  by (simp add: recursion_limit_def)

lemma check_cache_hit_docs:
  "check_cache hit_docs_env idx \<lparr>messages = [HumanMessage (py ''q'')], user_id = py ''u'', thread_id = py ''t'', steps = 0\<rparr>
     = ([EmbedQuery (py ''q''), IndexQuery (reports_namespace (py ''u'')), SimilaritySearch (py ''q'') (py ''u'')],
        Inr \<lparr>upd_messages = [AIMessage (memory_content (py ''R'')) [], SystemMessage (documents_content (py ''ctx''))],
             upd_steps = None\<rparr>)"
  by (simp add: check_cache_def query_memory_def retrieve_relevant_context_def hit_docs_env_def
      hit_env_def quiet_env_def io_simps return_def default_threshold_def ctx_truthy Let_def)

section \<open>Runs on concrete collaborators\<close>


lemma next_node_planner_done:
  "steps st < 12 \<Longrightarrow> messages st = ms @ [AIMessage c []] \<Longrightarrow> next_node planner st = Inr None"
  by (simp add: next_node_def should_continue_def)

lemma run_node_planner_quiet:
  assumes "model_with_tools_invoke E = (\<lambda>msgs. Inr (c, tcs))" and "steps st \<le> 8"
  shows "run_node E idx planner st =
           ([ModelInvoke (instruction # prune (messages st))],
            Inr (st, \<lparr>upd_messages = [AIMessage c tcs], upd_steps = Some (Suc (steps st))\<rparr>))"
  using assms by (simp add: run_node_def call_model_def get_response_def io_simps return_def Let_def)

text \<open>
  C1. The cache returns a report scored 0.9 and the user's documents hold a passage for
  the query. \<^verbatim>\<open>check_cache\<close> appends the documents message after the cache message,
  \<^verbatim>\<open>is_it_known\<close> reads the last message only, and the run goes on to the planner: the
  model is invoked and the answer is the model's, not the cached report.
\<close>

theorem cache_hit_with_documents:
  "run_graph hit_docs_env empty_world (py ''q'') (py ''t'') (py ''u'') =
     ([FindOne (py ''t'') (py ''u''), EmbedQuery (py ''q''), IndexQuery (reports_namespace (py ''u'')),
       SimilaritySearch (py ''q'') (py ''u''),
       ModelInvoke [instruction, HumanMessage (py ''q''), AIMessage (memory_content (py ''R'')) [],
                    SystemMessage (documents_content (py ''ctx''))]],
      Inr ([HumanMessage (py ''q'')],
           [(memory_check,
             \<lparr>upd_messages = [AIMessage (memory_content (py ''R'')) [],
                              SystemMessage (documents_content (py ''ctx''))],
              upd_steps = None\<rparr>),
            (planner, \<lparr>upd_messages = [AIMessage (py ''done'') []], upd_steps = Some 1\<rparr>)],
           py ''done''))"
proof -
  let ?st0 = "\<lparr>messages = [HumanMessage (py ''q'')], user_id = py ''u'', thread_id = py ''t'', steps = 0\<rparr>"
  let ?u0 = "\<lparr>upd_messages = [AIMessage (memory_content (py ''R'')) [],
                                SystemMessage (documents_content (py ''ctx''))],
               upd_steps = None\<rparr>"
  let ?st1 = "apply_update ?st0 ?u0"
  let ?u1 = "\<lparr>upd_messages = [AIMessage (py ''done'') []], upd_steps = Some (Suc (steps ?st1))\<rparr>"
  have rn0: "run_node hit_docs_env Map.empty memory_check ?st0 =
               ([EmbedQuery (py ''q''), IndexQuery (reports_namespace (py ''u'')),
                 SimilaritySearch (py ''q'') (py ''u'')], Inr (?st0, ?u0))"
    by (simp add: run_node_def check_cache_hit_docs bind_Inr return_def)
  have nn0: "next_node memory_check ?st1 = Inr (Some planner)"
    by (simp add: next_node_def is_it_known_def apply_update_def)
  have rn1: "run_node hit_docs_env Map.empty planner ?st1 =
               ([ModelInvoke (instruction # prune (messages ?st1))], Inr (?st1, ?u1))"
    by (rule run_node_planner_quiet)
       (simp_all add: hit_docs_env_def hit_env_def quiet_env_def apply_update_def)
  have nn1: "next_node planner (apply_update ?st1 ?u1) = Inr None"
    by (rule next_node_planner_done [where ms = "messages ?st1"]) (simp_all add: apply_update_def)
  have "astream hit_docs_env Map.empty (Suc (Suc (Suc 17))) memory_check ?st0 =
          ([EmbedQuery (py ''q''), IndexQuery (reports_namespace (py ''u'')),
            SimilaritySearch (py ''q'') (py ''u''), ModelInvoke (instruction # prune (messages ?st1))],
           [(memory_check, ?u0), (planner, ?u1)], Inr (apply_update ?st1 ?u1))"
    by (simp only: astream_next [OF rn0 nn0] astream_end [OF rn1 nn1]) simp
  then show ?thesis
    by (simp add: run_graph_def load_conversation_def empty_world_def hit_docs_env_def hit_env_def
        quiet_env_def initial_messages_def recursion_limit_Suc apply_update_def prune_def Let_def)
qed


lemma check_cache_quiet:
  "check_cache quiet_env idx \<lparr>messages = HumanMessage q # rest, user_id = uid, thread_id = tid, steps = n\<rparr>
     = ([EmbedQuery q, IndexQuery (reports_namespace uid), SimilaritySearch q uid],
        Inr \<lparr>upd_messages = [], upd_steps = None\<rparr>)"
  by (simp add: check_cache_def query_memory_def retrieve_relevant_context_def quiet_env_def
      io_simps return_def Let_def)

lemma check_cache_rag_down:
  "check_cache rag_down_env idx \<lparr>messages = HumanMessage q # rest, user_id = uid, thread_id = tid, steps = n\<rparr>
     = ([EmbedQuery q, IndexQuery (reports_namespace uid), SimilaritySearch q uid],
        Inr \<lparr>upd_messages = [], upd_steps = None\<rparr>)"
  by (simp add: check_cache_def query_memory_def retrieve_relevant_context_def rag_down_env_def
      quiet_env_def io_simps return_def Let_def)

lemma check_cache_cache_down:
  "check_cache cache_down_env idx \<lparr>messages = HumanMessage q # rest, user_id = uid, thread_id = tid, steps = n\<rparr>
     = ([EmbedQuery q], Inl (Raised (py ''unavailable'')))"
  by (simp add: check_cache_def query_memory_def cache_down_env_def quiet_env_def io_simps Let_def)

text \<open>
  C6. On a thread with an earlier exchange the stored history is put before the new
  query, so message 0 is the first message of the thread: the cache and the documents are
  asked about \<open>q0\<close> instead of \<open>q1\<close>, and after two tool rounds the pruned view keeps
  \<open>q0\<close> and no longer holds the query \<open>q1\<close> of the run.
\<close>

theorem history_precedes_query:
  "run_graph quiet_env thread_world (py ''q1'') (py ''t'') (py ''u'') =
     ([FindOne (py ''t'') (py ''u''), EmbedQuery (py ''q0''), IndexQuery (reports_namespace (py ''u'')),
       SimilaritySearch (py ''q0'') (py ''u''),
       ModelInvoke [instruction, HumanMessage (py ''q0''), AIMessage (py ''a0'') [],
                    HumanMessage (py ''q1'')]],
      Inr ([HumanMessage (py ''q0''), AIMessage (py ''a0'') [], HumanMessage (py ''q1'')],
           [(memory_check, \<lparr>upd_messages = [], upd_steps = None\<rparr>),
            (planner, \<lparr>upd_messages = [AIMessage (py ''done'') []], upd_steps = Some 1\<rparr>)],
           py ''done''))
   \<and> prune ([HumanMessage (py ''q0''), AIMessage (py ''a0'') [], HumanMessage (py ''q1'')]
             @ [AIMessage [] [ToolCall (py ''web_search'') [] (py ''a'')], ToolMessage (py ''ok'') (py ''a''),
                AIMessage [] [ToolCall (py ''web_search'') [] (py ''b'')], ToolMessage (py ''ok'') (py ''b'')])
       = [HumanMessage (py ''q0''),
          AIMessage [] [ToolCall (py ''web_search'') [] (py ''a'')], ToolMessage (py ''ok'') (py ''a''),
          AIMessage [] [ToolCall (py ''web_search'') [] (py ''b'')], ToolMessage (py ''ok'') (py ''b'')]"
proof -
  let ?ms = "[HumanMessage (py ''q0''), AIMessage (py ''a0'') [], HumanMessage (py ''q1'')]"
  let ?st0 = "\<lparr>messages = ?ms, user_id = py ''u'', thread_id = py ''t'', steps = 0\<rparr>"
  let ?u0 = "\<lparr>upd_messages = [], upd_steps = None\<rparr>"
  let ?st1 = "apply_update ?st0 ?u0"
  let ?u1 = "\<lparr>upd_messages = [AIMessage (py ''done'') []], upd_steps = Some (Suc (steps ?st1))\<rparr>"
  have rn0: "run_node quiet_env Map.empty memory_check ?st0 =
               ([EmbedQuery (py ''q0''), IndexQuery (reports_namespace (py ''u'')),
                 SimilaritySearch (py ''q0'') (py ''u'')], Inr (?st0, ?u0))"
    by (simp add: run_node_def check_cache_quiet bind_Inr return_def)
  have nn0: "next_node memory_check ?st1 = Inr (Some planner)"
    by (simp add: next_node_def is_it_known_def apply_update_def)
  have rn1: "run_node quiet_env Map.empty planner ?st1 =
               ([ModelInvoke (instruction # prune (messages ?st1))], Inr (?st1, ?u1))"
    by (rule run_node_planner_quiet) (simp_all add: quiet_env_def apply_update_def)
  have nn1: "next_node planner (apply_update ?st1 ?u1) = Inr None"
    by (rule next_node_planner_done [where ms = "messages ?st1"]) (simp_all add: apply_update_def)
  have a: "astream quiet_env Map.empty (Suc (Suc (Suc 17))) memory_check ?st0 =
          ([EmbedQuery (py ''q0''), IndexQuery (reports_namespace (py ''u'')),
            SimilaritySearch (py ''q0'') (py ''u''), ModelInvoke (instruction # prune (messages ?st1))],
           [(memory_check, ?u0), (planner, ?u1)], Inr (apply_update ?st1 ?u1))"
    by (simp only: astream_next [OF rn0 nn0] astream_end [OF rn1 nn1]) simp
  have h: "initial_messages [StoredMessage (py ''user'') (py ''q0''), StoredMessage (py ''assistant'') (py ''a0'')] (py ''q1'') = ?ms"
    by (simp add: initial_messages_def roles_distinct)
  have "run_graph quiet_env thread_world (py ''q1'') (py ''t'') (py ''u'') =
     ([FindOne (py ''t'') (py ''u''), EmbedQuery (py ''q0''), IndexQuery (reports_namespace (py ''u'')),
       SimilaritySearch (py ''q0'') (py ''u''),
       ModelInvoke [instruction, HumanMessage (py ''q0''), AIMessage (py ''a0'') [],
                    HumanMessage (py ''q1'')]],
      Inr (?ms,
           [(memory_check, \<lparr>upd_messages = [], upd_steps = None\<rparr>),
            (planner, \<lparr>upd_messages = [AIMessage (py ''done'') []], upd_steps = Some 1\<rparr>)],
           py ''done''))"
    using a
    by (simp add: run_graph_def load_conversation_def thread_world_def quiet_env_def h
        recursion_limit_Suc apply_update_def prune_def Let_def)
  moreover have "prune (?ms
             @ [AIMessage [] [ToolCall (py ''web_search'') [] (py ''a'')], ToolMessage (py ''ok'') (py ''a''),
                AIMessage [] [ToolCall (py ''web_search'') [] (py ''b'')], ToolMessage (py ''ok'') (py ''b'')])
       = [HumanMessage (py ''q0''),
          AIMessage [] [ToolCall (py ''web_search'') [] (py ''a'')], ToolMessage (py ''ok'') (py ''a''),
          AIMessage [] [ToolCall (py ''web_search'') [] (py ''b'')], ToolMessage (py ''ok'') (py ''b'')]"
    by (simp add: prune_def)
  ultimately show ?thesis by simp
qed

text \<open>
  C7. A failing similarity-cache lookup aborts the run: the exception of the embedding
  call leaves \<^verbatim>\<open>query_memory\<close>, \<^verbatim>\<open>check_cache\<close> and \<^verbatim>\<open>run\<close>, and the planner is never
  reached. A failing knowledge retrieval is caught in \<^verbatim>\<open>retrieve_relevant_context\<close> and
  the run proceeds without that context.
\<close>

theorem cache_lookup_failure_aborts:
  "run cache_down_env empty_world (py ''q'') (py ''t'') (py ''u'') =
     ([FindOne (py ''t'') (py ''u''), EmbedQuery (py ''q'')], empty_world, Inl (Raised (py ''unavailable'')))
   \<and> run_graph rag_down_env empty_world (py ''q'') (py ''t'') (py ''u'') =
     ([FindOne (py ''t'') (py ''u''), EmbedQuery (py ''q''), IndexQuery (reports_namespace (py ''u'')),
       SimilaritySearch (py ''q'') (py ''u''), ModelInvoke [instruction, HumanMessage (py ''q'')]],
      Inr ([HumanMessage (py ''q'')],
           [(memory_check, \<lparr>upd_messages = [], upd_steps = None\<rparr>),
            (planner, \<lparr>upd_messages = [AIMessage (py ''done'') []], upd_steps = Some 1\<rparr>)],
           py ''done''))"
proof -
  let ?st0 = "\<lparr>messages = [HumanMessage (py ''q'')], user_id = py ''u'', thread_id = py ''t'', steps = 0\<rparr>"
  let ?u0 = "\<lparr>upd_messages = [], upd_steps = None\<rparr>"
  let ?st1 = "apply_update ?st0 ?u0"
  let ?u1 = "\<lparr>upd_messages = [AIMessage (py ''done'') []], upd_steps = Some (Suc (steps ?st1))\<rparr>"
  have "run_node cache_down_env Map.empty memory_check ?st0 =
          ([EmbedQuery (py ''q'')], Inl (Raised (py ''unavailable'')))"
    by (simp add: run_node_def check_cache_cache_down bind_Inl)
  from astream_raise [OF this]
  have "astream cache_down_env Map.empty (Suc (Suc (Suc 17))) memory_check ?st0 =
          ([EmbedQuery (py ''q'')], [], Inl (Raised (py ''unavailable'')))" .
  then have 1: "run cache_down_env empty_world (py ''q'') (py ''t'') (py ''u'') =
     ([FindOne (py ''t'') (py ''u''), EmbedQuery (py ''q'')], empty_world, Inl (Raised (py ''unavailable'')))"
    by (simp add: run_def run_graph_def load_conversation_def empty_world_def cache_down_env_def
        quiet_env_def initial_messages_def recursion_limit_Suc Let_def)
  have rn0: "run_node rag_down_env Map.empty memory_check ?st0 =
               ([EmbedQuery (py ''q''), IndexQuery (reports_namespace (py ''u'')),
                 SimilaritySearch (py ''q'') (py ''u'')], Inr (?st0, ?u0))"
    by (simp add: run_node_def check_cache_rag_down bind_Inr return_def)
  have nn0: "next_node memory_check ?st1 = Inr (Some planner)"
    by (simp add: next_node_def is_it_known_def apply_update_def)
  have rn1: "run_node rag_down_env Map.empty planner ?st1 =
               ([ModelInvoke (instruction # prune (messages ?st1))], Inr (?st1, ?u1))"
    by (rule run_node_planner_quiet) (simp_all add: rag_down_env_def quiet_env_def apply_update_def)
  have nn1: "next_node planner (apply_update ?st1 ?u1) = Inr None"
    by (rule next_node_planner_done [where ms = "messages ?st1"]) (simp_all add: apply_update_def)
  have "astream rag_down_env Map.empty (Suc (Suc (Suc 17))) memory_check ?st0 =
          ([EmbedQuery (py ''q''), IndexQuery (reports_namespace (py ''u'')),
            SimilaritySearch (py ''q'') (py ''u''), ModelInvoke (instruction # prune (messages ?st1))],
           [(memory_check, ?u0), (planner, ?u1)], Inr (apply_update ?st1 ?u1))"
    by (simp only: astream_next [OF rn0 nn0] astream_end [OF rn1 nn1]) simp
  then have 2: "run_graph rag_down_env empty_world (py ''q'') (py ''t'') (py ''u'') =
     ([FindOne (py ''t'') (py ''u''), EmbedQuery (py ''q''), IndexQuery (reports_namespace (py ''u'')),
       SimilaritySearch (py ''q'') (py ''u''), ModelInvoke [instruction, HumanMessage (py ''q'')]],
      Inr ([HumanMessage (py ''q'')],
           [(memory_check, \<lparr>upd_messages = [], upd_steps = None\<rparr>),
            (planner, \<lparr>upd_messages = [AIMessage (py ''done'') []], upd_steps = Some 1\<rparr>)],
           py ''done''))"
    by (simp add: run_graph_def load_conversation_def empty_world_def rag_down_env_def
        quiet_env_def initial_messages_def recursion_limit_Suc apply_update_def prune_def Let_def)
  from 1 2 show ?thesis by simp
qed

section \<open>The step budget\<close>

lemma check_cache_steps: "check_cache E idx st = (t, Inr u) \<Longrightarrow> upd_steps u = None"
  by (auto simp: check_cache_def bind_def return_def raise_def Let_def
      split: list.splits prod.splits sum.splits)

lemma call_tool_steps: "call_tool E st = (t, Inr u) \<Longrightarrow> upd_steps u = None"
  by (auto simp: call_tool_def bind_def return_def raise_def Let_def
      split: list.splits prod.splits sum.splits option.splits)

lemma call_model_steps:
  "call_model E st = (t, Inr (st1, u)) \<Longrightarrow>
   steps st1 = steps st \<and> upd_steps u = Some (Suc (steps st))"
  by (auto simp: call_model_def bind_def return_def Let_def
      split: prod.splits sum.splits if_splits)

lemma run_node_steps:
  "run_node E idx n st = (t, Inr (st1, u)) \<Longrightarrow>
   steps st1 = steps st \<and> upd_steps u = (if n = planner then Some (Suc (steps st)) else None)"
proof (cases n)
  case memory_check
  assume "run_node E idx n st = (t, Inr (st1, u))"
  with memory_check show ?thesis
    by (auto simp: run_node_def bind_def return_def split: prod.splits sum.splits
        dest: check_cache_steps)
next
  case planner
  assume "run_node E idx n st = (t, Inr (st1, u))"
  with planner show ?thesis
    by (auto simp: run_node_def dest: call_model_steps)
next
  case executor
  assume "run_node E idx n st = (t, Inr (st1, u))"
  with executor show ?thesis
    by (auto simp: run_node_def bind_def return_def split: prod.splits sum.splits
        dest: call_tool_steps)
qed

lemma steps_apply_update:
  "steps (apply_update st u) = (case upd_steps u of None \<Rightarrow> steps st | Some k \<Rightarrow> k)"
  by (simp add: apply_update_def)

lemma should_continue_cap:
  "12 \<le> steps st \<Longrightarrow> messages st \<noteq> [] \<Longrightarrow> should_continue st = Inr End"
  by (simp add: should_continue_def)

lemma next_node_planner_continue:
  "next_node planner st = Inr (Some n') \<Longrightarrow> steps st < 12"
  by (auto simp: next_node_def should_continue_def Let_def
      split: sum.splits continue_route.splits if_splits option.splits)

lemma astream_counted:
  "steps st < 12 \<Longrightarrow> astream E idx k n st = (t, outs, r) \<Longrightarrow>
   counted (steps st) outs \<and> (\<forall>st'. r = Inr st' \<longrightarrow> steps st' = steps st + planner_count outs)"
proof (induction k arbitrary: n st t outs r)
  case 0
  then show ?case by auto
next
  case (Suc k)
  obtain t1 r1 where rn: "run_node E idx n st = (t1, r1)" by (cases "run_node E idx n st")
  show ?case
  proof (cases r1)
    case (Inl e)
    with rn Suc.prems(2) show ?thesis by auto
  next
    case (Inr p)
    obtain st1 u where p: "p = (st1, u)" by (cases p)
    let ?st' = "apply_update st1 u"
    from rn Inr p have rn': "run_node E idx n st = (t1, Inr (st1, u))" by simp
    from run_node_steps [OF rn'] have
      s1: "steps st1 = steps st" and
      us: "upd_steps u = (if n = planner then Some (Suc (steps st)) else None)" by simp_all
    have s': "steps ?st' = (if n = planner then Suc (steps st) else steps st)"
      using s1 us by (simp add: steps_apply_update)
    have head: "(if n = planner
                 then upd_steps u = Some (Suc (steps st)) \<and> Suc (steps st) \<le> 12
                 else upd_steps u = None)"
      using us Suc.prems(1) by simp
    show ?thesis
    proof (cases "next_node n ?st'")
      case (Inl e)
      with rn' Suc.prems(2) have "outs = [(n, u)]" and "r = Inl e" by auto
      with head show ?thesis by (auto split: if_splits)
    next
      case (Inr nx)
      show ?thesis
      proof (cases "k = 0")
        case True
        with Inr rn' Suc.prems(2) have "outs = [(n, u)]" and "r = Inl GraphRecursionError" by auto
        with head show ?thesis by (auto split: if_splits)
      next
        case False
        note more = False
      show ?thesis
      proof (cases nx)
        case None
        with Inr rn' more Suc.prems(2) have "outs = [(n, u)]" and "r = Inr ?st'" by auto
        with head s' show ?thesis by (auto split: if_splits)
      next
        case (Some n')
        with Inr have nn: "next_node n ?st' = Inr (Some n')" by simp
        have lt: "steps ?st' < 12"
        proof (cases "n = planner")
          case True
          with nn show ?thesis by (auto dest: next_node_planner_continue)
        next
          case False
          with s' Suc.prems(1) show ?thesis by simp
        qed
        obtain t2 outs2 r2 where rec: "astream E idx k n' ?st' = (t2, outs2, r2)"
          by (cases "astream E idx k n' ?st'") auto
        from Suc.IH [OF lt rec] have
          ih: "counted (steps ?st') outs2"
              "\<forall>st'. r2 = Inr st' \<longrightarrow> steps st' = steps ?st' + planner_count outs2"
          by simp_all
        from rn' nn rec more Suc.prems(2) have o: "outs = (n, u) # outs2" and r: "r = r2" by auto
        show ?thesis
        proof (cases "n = planner")
          case True
          with s' lt have "Suc (steps st) < 12" by simp
          with True head ih s' o r show ?thesis by (auto split: if_splits)
        next
          case False
          with head ih s' o r show ?thesis by (auto split: if_splits)
        qed
      qed
      qed
    qed
  qed
qed

lemma counted_bound: "counted s outs \<Longrightarrow> s \<le> 12 \<Longrightarrow> s + planner_count outs \<le> 12"
proof (induction outs arbitrary: s)
  case Nil
  then show ?case by simp
next
  case (Cons a outs)
  obtain n u where a: "a = (n, u)" by (cases a)
  show ?case
  proof (cases "n = planner")
    case True
    with Cons.prems a have "counted (Suc s) outs" "Suc s \<le> 12" by simp_all
    from Cons.IH [OF this] True a show ?thesis by simp
  next
    case False
    with Cons.prems a have "counted s outs" by simp
    from Cons.IH [OF this Cons.prems(2)] False a show ?thesis by simp
  qed
qed

text \<open>
  C2. In every run the step counter starts at 0; along the outputs of the graph each
  planner execution sets it to exactly one more and no other node touches it (\<open>counted\<close>),
  so it equals the number of planner executions and never exceeds 12; no node runs after
  the output that sets it to 12, and with the counter at 12 or more the routing decision
  is the terminal branch whatever the last message requests.
\<close>

theorem step_counter:
  "counted 0 (fst (snd (astream E idx limit memory_check
      \<lparr>messages = msgs, user_id = uid, thread_id = tid, steps = 0\<rparr>)))
   \<and> planner_count (fst (snd (astream E idx limit memory_check
      \<lparr>messages = msgs, user_id = uid, thread_id = tid, steps = 0\<rparr>))) \<le> 12
   \<and> (\<forall>st'. snd (snd (astream E idx limit memory_check
          \<lparr>messages = msgs, user_id = uid, thread_id = tid, steps = 0\<rparr>)) = Inr st' \<longrightarrow>
        steps st' = planner_count (fst (snd (astream E idx limit memory_check
          \<lparr>messages = msgs, user_id = uid, thread_id = tid, steps = 0\<rparr>))) \<and> steps st' \<le> 12)
   \<and> (\<forall>st. 12 \<le> steps st \<and> messages st \<noteq> [] \<longrightarrow> should_continue st = Inr End)"
proof -
  let ?st0 = "\<lparr>messages = msgs, user_id = uid, thread_id = tid, steps = 0\<rparr>"
  obtain t outs r where a: "astream E idx limit memory_check ?st0 = (t, outs, r)"
    by (cases "astream E idx limit memory_check ?st0") auto
  have "steps ?st0 < 12" by simp
  from astream_counted [OF this a] have
    c: "counted 0 outs" and f: "\<forall>st'. r = Inr st' \<longrightarrow> steps st' = planner_count outs"
    by simp_all
  from counted_bound [OF c] have b: "planner_count outs \<le> 12" by simp
  from a c f b show ?thesis by (simp add: should_continue_cap)
qed

theorem step_counter_witness:
  "should_continue
     \<lparr>messages = [HumanMessage (py ''q''), AIMessage [] [ToolCall (py ''web_search'') [] (py ''a'')]],
      user_id = py ''u'', thread_id = py ''t'', steps = 12\<rparr> = Inr End
   \<and> counted 0 (fst (snd (astream quiet_env Map.empty 20 memory_check
        \<lparr>messages = [HumanMessage (py ''q'')], user_id = py ''u'', thread_id = py ''t'', steps = 0\<rparr>)))"
  using step_counter [of quiet_env Map.empty 20 "[HumanMessage (py ''q'')]" "py ''u''" "py ''t''"]
  by simp

section \<open>Archiving the answer\<close>













text \<open>
  A run whose graph raises, the recursion limit included, reaches no archiving step: the
  stores are as before.
\<close>

lemma run_aborted:
  "run_graph E w query tid uid = (t1, Inl e) \<Longrightarrow> run E w query tid uid = (t1, w, Inl e)"
  by (simp add: run_def)

lemma contains_append: "contains sub (xs @ sub @ ys)"
proof (induction xs)
  case Nil
  show ?case
  proof (cases "sub @ ys")
    case Nil
    then show ?thesis by simp
  next
    case (Cons c cs)
    have "take (length sub) (sub @ ys) = sub" by simp
    with Cons have "take (length sub) (c # cs) = sub" by simp
    with Cons show ?thesis by simp
  qed
next
  case (Cons x xs)
  then show ?case by simp
qed

lemma contains_memory_content: "contains memory_sentinel (memory_content r)"
proof -
  have "memory_content r = [0xF0, 0x178, 0xA7, 0xA0, 32] @ memory_sentinel @ ([10] @ r)"
    by (simp add: memory_content_def memory_sentinel_def py_def)
  then show ?thesis by (simp only: contains_append)
qed




text \<open>With a limit of two nodes the same run is cut off after the planner.\<close>

lemma graph_limit_reached:
  "astream quiet_env Map.empty (Suc (Suc 0)) memory_check
     \<lparr>messages = [HumanMessage (py ''q'')], user_id = py ''u'', thread_id = py ''t'', steps = 0\<rparr> =
   ([EmbedQuery (py ''q''), IndexQuery (reports_namespace (py ''u'')),
     SimilaritySearch (py ''q'') (py ''u''), ModelInvoke [instruction, HumanMessage (py ''q'')]],
    [(memory_check, \<lparr>upd_messages = [], upd_steps = None\<rparr>),
     (planner, \<lparr>upd_messages = [AIMessage (py ''done'') []], upd_steps = Some 1\<rparr>)],
    Inl GraphRecursionError)"
proof -
  let ?st0 = "\<lparr>messages = [HumanMessage (py ''q'')], user_id = py ''u'', thread_id = py ''t'', steps = 0\<rparr>"
  let ?u0 = "\<lparr>upd_messages = [], upd_steps = None\<rparr>"
  let ?st1 = "apply_update ?st0 ?u0"
  let ?u1 = "\<lparr>upd_messages = [AIMessage (py ''done'') []], upd_steps = Some (Suc (steps ?st1))\<rparr>"
  have rn0: "run_node quiet_env Map.empty memory_check ?st0 =
               ([EmbedQuery (py ''q''), IndexQuery (reports_namespace (py ''u'')),
                 SimilaritySearch (py ''q'') (py ''u'')], Inr (?st0, ?u0))"
    by (simp add: run_node_def check_cache_quiet bind_Inr return_def)
  have nn0: "next_node memory_check ?st1 = Inr (Some planner)"
    by (simp add: next_node_def is_it_known_def apply_update_def)
  have rn1: "run_node quiet_env Map.empty planner ?st1 =
               ([ModelInvoke (instruction # prune (messages ?st1))], Inr (?st1, ?u1))"
    by (rule run_node_planner_quiet) (simp_all add: quiet_env_def apply_update_def)
  have nn1: "next_node planner (apply_update ?st1 ?u1) = Inr None"
    by (rule next_node_planner_done [where ms = "messages ?st1"]) (simp_all add: apply_update_def)
  show ?thesis
    by (simp only: astream_next [OF rn0 nn0] astream_limit [OF rn1 nn1])
       (simp add: apply_update_def prune_def)
qed




text \<open>
  What does hold of the cache gate: a cache hit with no document context ends the graph
  at the gate, with the marked report as the final message.
\<close>

lemma cache_hit_alone:
  assumes "query_memory E idx (content m0) uid default_threshold = (t1, Inr (Some r))" and "r \<noteq> []"
    and "snd (retrieve_relevant_context E (content m0) uid 5) = Inr None"
  shows "astream E idx (Suc (Suc k)) memory_check
           \<lparr>messages = m0 # rest, user_id = uid, thread_id = tid, steps = s\<rparr> =
         (t1 @ [SimilaritySearch (content m0) uid],
          [(memory_check, \<lparr>upd_messages = [AIMessage (memory_content r) []], upd_steps = None\<rparr>)],
          Inr \<lparr>messages = m0 # rest @ [AIMessage (memory_content r) []], user_id = uid,
                thread_id = tid, steps = s\<rparr>)
         \<and> final_message []
             [(memory_check, \<lparr>upd_messages = [AIMessage (memory_content r) []], upd_steps = None\<rparr>)]
           = memory_content r"
proof -
  let ?st = "\<lparr>messages = m0 # rest, user_id = uid, thread_id = tid, steps = s\<rparr>"
  let ?u = "\<lparr>upd_messages = [AIMessage (memory_content r) []], upd_steps = None\<rparr>"
  have rc: "retrieve_relevant_context E (content m0) uid 5 = ([SimilaritySearch (content m0) uid], Inr None)"
    using assms(3) retrieve_events [of E "content m0" uid 5]
    by (cases "retrieve_relevant_context E (content m0) uid 5") simp
  have "check_cache E idx ?st = (t1 @ [SimilaritySearch (content m0) uid], Inr ?u)"
    using assms(1,2) rc by (simp add: check_cache_def io_simps return_def Let_def)
  then have rn: "run_node E idx memory_check ?st = (t1 @ [SimilaritySearch (content m0) uid], Inr (?st, ?u))"
    by (simp add: run_node_def bind_Inr return_def)
  have nn: "next_node memory_check (apply_update ?st ?u) = Inr None"
    by (simp add: next_node_def is_it_known_def apply_update_def contains_memory_content)
  from astream_end [OF rn nn, of k] show ?thesis
    by (simp add: apply_update_def)
qed

section \<open>Context pruning\<close>

text \<open>
  C4. For every message history \<open>h\<close> passed to the reasoning policy: with at most five
  messages the pruned view is \<open>h\<close> itself; with more than five it has exactly five
  messages, message 0 followed by the last four messages of \<open>h\<close> in their order.
\<close>

theorem prune_view:
  "(length h \<le> 5 \<longrightarrow> prune h = h) \<and>
   (length h > 5 \<longrightarrow> length (prune h) = 5 \<and> prune h = h ! 0 # drop (length h - 4) h
      \<and> (\<forall>i < 4. prune h ! Suc i = h ! (length h - 4 + i)))"
  by (auto simp: prune_def)

theorem prune_view_witness:
  "prune (map (\<lambda>n. HumanMessage [n]) [0, 1, 2, 3, 4, 5, 6])
     = map (\<lambda>n. HumanMessage [n]) [0, 3, 4, 5, 6]
   \<and> prune [HumanMessage [7], SystemMessage [8]] = [HumanMessage [7], SystemMessage [8]]"
  using prune_view [of "map (\<lambda>n. HumanMessage [n]) [0, 1, 2, 3, 4, 5, 6]"]
        prune_view [of "[HumanMessage [7], SystemMessage [8]]"]
  by simp

end
